theory Spec2Isabelle
  imports Main
begin

section \<open>Handles and contexts (types.go)\<close>

text \<open>
  A \<^verbatim>\<open>QueryableInterface\<close> value is a Go interface value: the nil interface, a pointer
  of one of the three database/sql types, or a value of some other type that implements
  the interface. The number is the pointer's address (the identity of the handle); the
  code of types.go never dereferences it, it only tests the interface against nil and
  asserts its dynamic type.
\<close>

datatype QueryableInterface =
    nil_queryable
  | sql_DB nat
  | sql_Conn nat
  | sql_Tx nat
  | foreign_queryable nat

text \<open>
  A \<^verbatim>\<open>context.Context\<close> is an interface value too: nil, one of the contexts of the
  standard library (the background and todo contexts, or a context derived from a parent
  by \<^verbatim>\<open>WithValue\<close>, \<^verbatim>\<open>WithCancel\<close>, ...), or a \<^verbatim>\<open>QueryableContext\<close> struct value.
  \<open>derived k p\<close> stands for any context of another type with parent \<open>p\<close>, the number
  telling such contexts apart.
  The struct embeds its parent context and holds the unexported field \<^verbatim>\<open>queryable\<close>.
  A Go struct value has no identity beyond its fields, so two \<^verbatim>\<open>QueryableContext\<close>
  values are the same value exactly when parent and handle are the same, which is HOL
  equality on this datatype (and what \<^verbatim>\<open>==\<close> on the struct compares in the tests).
\<close>

datatype context_Context =
    nil_context
  | Background
  | TODO
  | derived nat context_Context
  | queryable_context QueryableContext
and QueryableContext =
    QueryableContext (Context: context_Context) (queryable: QueryableInterface)

text \<open>\<^verbatim>\<open>return QueryableContext{Context: ctx, queryable: queryable}\<close>\<close>

definition NewQueryableContext :: "context_Context \<Rightarrow> QueryableInterface \<Rightarrow> QueryableContext" where
  "NewQueryableContext ctx q = QueryableContext ctx q"

text \<open>
  \<^verbatim>\<open>if qCtx, ok := ctx.(QueryableContext); ok { return qCtx }\<close>, otherwise a new struct.
  The type assertion succeeds exactly when the dynamic type of the interface value is
  \<^verbatim>\<open>QueryableContext\<close>; a context derived from one has another dynamic type.
\<close>

definition NewQueryableContextOr :: "context_Context \<Rightarrow> QueryableInterface \<Rightarrow> QueryableContext" where
  "NewQueryableContextOr ctx q =
     (case ctx of
        queryable_context qCtx \<Rightarrow> qCtx
      | _ \<Rightarrow> QueryableContext ctx q)"

text \<open>The methods of \<^verbatim>\<open>QueryableContext\<close>, in the order the source tests things.\<close>

definition IsTx :: "QueryableContext \<Rightarrow> bool" where
  "IsTx ctx =
     (if queryable ctx = nil_queryable then False
      else (case queryable ctx of sql_Tx _ \<Rightarrow> True | _ \<Rightarrow> False))"

definition IsConn :: "QueryableContext \<Rightarrow> bool" where
  "IsConn ctx =
     (if queryable ctx = nil_queryable then False
      else (case queryable ctx of sql_Conn _ \<Rightarrow> True | _ \<Rightarrow> False))"

definition IsDB :: "QueryableContext \<Rightarrow> bool" where
  "IsDB ctx =
     (if queryable ctx = nil_queryable then False
      else if IsTx ctx then False
      else if IsConn ctx then False
      else (case queryable ctx of sql_DB _ \<Rightarrow> True | _ \<Rightarrow> False))"

definition Queryable :: "QueryableContext \<Rightarrow> QueryableInterface" where
  "Queryable ctx = queryable ctx"

subsection \<open>The shortcuts of funcs.go\<close>

text \<open>
  The function \<^verbatim>\<open>Context\<close> is \<open>Context_shortcut\<close> here: \<open>Context\<close> is already the
  embedded field of the struct.
\<close>

definition IsQueryableContext :: "context_Context \<Rightarrow> bool" where
  "IsQueryableContext ctx = (case ctx of queryable_context _ \<Rightarrow> True | _ \<Rightarrow> False)"

definition Context_shortcut :: "context_Context \<Rightarrow> QueryableInterface \<Rightarrow> QueryableContext" where
  "Context_shortcut ctx q = NewQueryableContext ctx q"

definition ContextOr :: "context_Context \<Rightarrow> QueryableInterface \<Rightarrow> QueryableContext" where
  "ContextOr ctx q = NewQueryableContextOr ctx q"

text \<open>
  Repeated calls of the preserving constructor down a call chain: each layer passes the
  context it received, as an interface value, together with its own handle.
\<close>

fun ContextOr_chain :: "context_Context \<Rightarrow> QueryableInterface list \<Rightarrow> context_Context" where
  "ContextOr_chain ctx [] = ctx"
| "ContextOr_chain ctx (q # qs) =
     ContextOr_chain (queryable_context (NewQueryableContextOr ctx q)) qs"

section \<open>The execution helpers (execute.go, query.go, select.go)\<close>

text \<open>
  Values that cross the boundary to database/sql. An \<^verbatim>\<open>any\<close> is a column value or a
  statement argument, an \<^verbatim>\<open>error\<close> carries its message, and the optional types below
  are Go's nil-able interface and pointer results (\<open>None\<close> is nil).
\<close>

datatype any = nil_any | int_any int | string_any string | bool_any bool

datatype error = errors_New string

text \<open>A Go slice is nil or has a backing array; \<^verbatim>\<open>[]T{}\<close> is the empty non-nil slice.\<close>

datatype 'a slice = nil_slice | slice "'a list"

fun elements :: "'a slice \<Rightarrow> 'a list" where
  "elements nil_slice = []"
| "elements (slice xs) = xs"

fun append_slice :: "'a slice \<Rightarrow> 'a \<Rightarrow> 'a slice" where
  "append_slice s x = slice (elements s @ [x])"

text \<open>
  A \<^verbatim>\<open>*sql.Rows\<close> cursor as the helper observes it: what \<^verbatim>\<open>Columns()\<close> returns, then
  one entry for every time \<^verbatim>\<open>Next()\<close> returns true (the values \<^verbatim>\<open>Scan\<close> stores and the
  error it returns), and what \<^verbatim>\<open>Err()\<close> returns once \<^verbatim>\<open>Next()\<close> has returned false.
  The result set is finite.
\<close>

record Rows =
  Columns :: "string list \<times> error option"
  Scans :: "(any list \<times> error option) list"
  Err :: "error option"

text \<open>
  The calls made on the bound handle are recorded in a trace. The handle's behaviour is a
  parameter: given the calls made so far and the arguments, what \<^verbatim>\<open>ExecContext\<close> and
  \<^verbatim>\<open>QueryContext\<close> return. \<^verbatim>\<open>sql.Result\<close> is abstract (rows affected, last insert id).
  \<^verbatim>\<open>MapStringAnyToMapStringString\<close> is the conversion of the maputils package, a
  parameter as well.
\<close>

datatype call =
    ExecContext_call QueryableInterface QueryableContext string "any list"
  | QueryContext_call QueryableInterface QueryableContext string "any list"

type_synonym sql_Result = "int \<times> int"

record handles =
  ExecContext :: "call list \<Rightarrow> QueryableInterface \<Rightarrow> QueryableContext \<Rightarrow> string \<Rightarrow> any list
                  \<Rightarrow> sql_Result option \<times> error option"
  QueryContext :: "call list \<Rightarrow> QueryableInterface \<Rightarrow> QueryableContext \<Rightarrow> string \<Rightarrow> any list
                   \<Rightarrow> Rows option \<times> error option"
  MapStringAnyToMapStringString :: "(string \<rightharpoonup> any) \<Rightarrow> (string \<rightharpoonup> string)"

text \<open>A helper either returns its pair of results or panics (a nil cursor is dereferenced).\<close>

datatype 'a outcome = Panics | Returns 'a

definition nil_querier :: error where
  "nil_querier = errors_New ''querier (db/tx/conn) is nil''"

text \<open>execute.go\<close>

definition Execute ::
  "handles \<Rightarrow> QueryableContext \<Rightarrow> string \<Rightarrow> any list \<Rightarrow> call list
   \<Rightarrow> (sql_Result option \<times> error option) \<times> call list" where
  "Execute h ctx sqlStr args tr =
     (if queryable ctx = nil_queryable then ((None, Some nil_querier), tr)
      else
        let ctx' = NewQueryableContextOr (queryable_context ctx) (queryable ctx)
        in (ExecContext h tr (queryable ctx') ctx' sqlStr args,
            tr @ [ExecContext_call (queryable ctx') ctx' sqlStr args]))"

text \<open>query.go\<close>

definition Query ::
  "handles \<Rightarrow> QueryableContext \<Rightarrow> string \<Rightarrow> any list \<Rightarrow> call list
   \<Rightarrow> (Rows option \<times> error option) \<times> call list" where
  "Query h ctx sqlStr args tr =
     (if queryable ctx = nil_queryable then ((None, Some nil_querier), tr)
      else
        let ctx' = NewQueryableContextOr (queryable_context ctx) (queryable ctx)
        in (QueryContext h tr (queryable ctx') ctx' sqlStr args,
            tr @ [QueryContext_call (queryable ctx') ctx' sqlStr args]))"

text \<open>
  select.go. \<^verbatim>\<open>values\<close> is made with one nil entry per column and \<^verbatim>\<open>Scan\<close> stores into
  it through the pointers, so it keeps the length of \<^verbatim>\<open>columns\<close> whatever was scanned.
\<close>

definition scanned_values :: "string list \<Rightarrow> any list \<Rightarrow> any list" where
  "scanned_values columns vs =
     take (length columns) (vs @ replicate (length columns) nil_any)"

fun fill_row :: "(string \<times> any) list \<Rightarrow> (string \<rightharpoonup> any) \<Rightarrow> (string \<rightharpoonup> any)" where
  "fill_row [] row = row"
| "fill_row ((col, val) # cvs) row =
     fill_row cvs (if val = nil_any then row(col \<mapsto> nil_any) else row(col \<mapsto> val))"

definition make_row :: "string list \<Rightarrow> any list \<Rightarrow> (string \<rightharpoonup> any)" where
  "make_row columns vs = fill_row (zip columns (scanned_values columns vs)) Map.empty"

text \<open>
  The loop \<^verbatim>\<open>for rows.Next() { ... }\<close>: \<open>Inl\<close> is the early return from inside the loop,
  \<open>Inr\<close> the value of \<^verbatim>\<open>listMap\<close> when \<^verbatim>\<open>Next()\<close> returns false.
\<close>

fun scan_loop ::
  "string list \<Rightarrow> (any list \<times> error option) list \<Rightarrow> (string \<rightharpoonup> any) slice
   \<Rightarrow> ((string \<rightharpoonup> any) slice \<times> error option) + (string \<rightharpoonup> any) slice" where
  "scan_loop columns [] listMap = Inr listMap"
| "scan_loop columns ((vs, scan_err) # rest) listMap =
     (case scan_err of
        Some err \<Rightarrow> Inl (slice [], Some err)
      | None \<Rightarrow> scan_loop columns rest (append_slice listMap (make_row columns vs)))"

definition SelectToMapAny ::
  "handles \<Rightarrow> QueryableContext \<Rightarrow> string \<Rightarrow> any list \<Rightarrow> call list
   \<Rightarrow> ((string \<rightharpoonup> any) slice \<times> error option) outcome \<times> call list" where
  "SelectToMapAny h ctx sqlStr args tr =
     (if queryable ctx = nil_queryable then (Returns (slice [], Some nil_querier), tr)
      else
        let listMap = slice [];
            (rows, err) = QueryContext h tr (queryable ctx) ctx sqlStr args;
            tr' = tr @ [QueryContext_call (queryable ctx) ctx sqlStr args]
        in (case err of
              Some e \<Rightarrow> (Returns (slice [], Some e), tr')
            | None \<Rightarrow>
                (case rows of
                   None \<Rightarrow> (Panics, tr')
                 | Some rs \<Rightarrow>
                     (case Columns rs of
                        (columns, Some e) \<Rightarrow> (Returns (slice [], Some e), tr')
                      | (columns, None) \<Rightarrow>
                          (case scan_loop columns (Scans rs) listMap of
                             Inl early \<Rightarrow> (Returns early, tr')
                           | Inr listMap' \<Rightarrow>
                               (case Err rs of
                                  Some e \<Rightarrow> (Returns (slice [], Some e), tr')
                                | None \<Rightarrow> (Returns (listMap', None), tr')))))))"

fun convert_loop ::
  "handles \<Rightarrow> (string \<rightharpoonup> any) list \<Rightarrow> (string \<rightharpoonup> string) slice \<Rightarrow> (string \<rightharpoonup> string) slice" where
  "convert_loop h [] listMapString = listMapString"
| "convert_loop h (m # ms) listMapString =
     convert_loop h ms (append_slice listMapString (MapStringAnyToMapStringString h m))"

definition SelectToMapString ::
  "handles \<Rightarrow> QueryableContext \<Rightarrow> string \<Rightarrow> any list \<Rightarrow> call list
   \<Rightarrow> ((string \<rightharpoonup> string) slice \<times> error option) outcome \<times> call list" where
  "SelectToMapString h ctx sqlStr args tr =
     (if queryable ctx = nil_queryable then (Returns (slice [], Some nil_querier), tr)
      else
        (case SelectToMapAny h ctx sqlStr args tr of
           (Panics, tr') \<Rightarrow> (Panics, tr')
         | (Returns (listMapAny, Some e), tr') \<Rightarrow> (Returns (slice [], Some e), tr')
         | (Returns (listMapAny, None), tr') \<Rightarrow>
             (Returns (convert_loop h (elements listMapAny) (slice []), None), tr')))"

section \<open>Dialect resolution\<close>

text \<open>
  \<^verbatim>\<open>DatabaseType\<close> and the \<^verbatim>\<open>DATABASE_TYPE_*\<close> constants live in files that are not among
  the sources (database_type.go, consts.go): only the tests that call them and a five-line
  excerpt of the private-field read are. This section is therefore written from section
  4.2 of the specification, one definition per step.
\<close>

text \<open>
  Modelled from the spec: the dialect tags (the constants of consts.go are missing; the
  test prints "sqlite" for \<^verbatim>\<open>DATABASE_TYPE_SQLITE\<close>). The enumeration is that of section 3:
  sqlite, mysql, postgres, mssql, unknown.
\<close>

definition DATABASE_TYPE_SQLITE :: string where
  "DATABASE_TYPE_SQLITE = ''sqlite''"

definition DATABASE_TYPE_MYSQL :: string where
  "DATABASE_TYPE_MYSQL = ''mysql''"

definition DATABASE_TYPE_POSTGRES :: string where
  "DATABASE_TYPE_POSTGRES = ''postgres''"

definition DATABASE_TYPE_MSSQL :: string where
  "DATABASE_TYPE_MSSQL = ''mssql''"

definition unknown_dialect :: string where
  "unknown_dialect = ''unknown''"

text \<open>
  Modelled from the spec: the matching of step 1 (missing: the body of \<^verbatim>\<open>DatabaseType\<close>).
  "Prefix/substring matching on the registered driver identifier, case-insensitive":
  a name containing "postgres" is postgres, one containing "sqlite" is sqlite, one
  containing "mysql" is mysql, "default/no match maps to a distinct unknown tag". The
  keywords are tried in the order the specification lists them, mssql, the remaining
  dialect of the enumeration, last.
\<close>

definition to_lower :: "char \<Rightarrow> char" where
  "to_lower c =
     (let n = (of_char c :: nat) in if 65 \<le> n \<and> n \<le> 90 then char_of (n + 32) else c)"

fun starts_with :: "string \<Rightarrow> string \<Rightarrow> bool" where
  "starts_with s [] = True"
| "starts_with [] (p # ps) = False"
| "starts_with (c # cs) (p # ps) = (c = p \<and> starts_with cs ps)"

fun contains :: "string \<Rightarrow> string \<Rightarrow> bool" where
  "contains [] sub = starts_with [] sub"
| "contains (c # cs) sub = (starts_with (c # cs) sub \<or> contains cs sub)"

definition dialect_keywords :: "string list" where
  "dialect_keywords =
     [DATABASE_TYPE_POSTGRES, DATABASE_TYPE_SQLITE, DATABASE_TYPE_MYSQL, DATABASE_TYPE_MSSQL]"

definition dialect_of_driver :: "string \<Rightarrow> string" where
  "dialect_of_driver name =
     (case find (contains (map to_lower name)) dialect_keywords of
        Some tag \<Rightarrow> tag
      | None \<Rightarrow> unknown_dialect)"

text \<open>
  Modelled from the spec: what the resolver reads from database/sql (missing: the body of
  \<^verbatim>\<open>DatabaseType\<close>). \<open>driver_name\<close> is the public path of step 1, the driver
  identifier of the pool at an address. \<open>private_db\<close> is the unsafe read of step 2 on
  a connection or transaction: the address of the parent pool, or one of the failures
  step 3 names ("unexpected internal layout, nil reference, or any panic/fault triggered
  by the unsafe access").
\<close>

datatype failure = unexpected_layout | nil_reference | access_fault | unsupported_handle

record sql_internals =
  driver_name :: "nat \<Rightarrow> string"
  private_db :: "QueryableInterface \<Rightarrow> failure + nat"

text \<open>
  Modelled from the spec: steps 1 and 2 without the guard (missing: the body of
  \<^verbatim>\<open>DatabaseType\<close>). A pool is classified by its own driver name; for a connection or a
  transaction the parent pool is recovered and classified the same way ("recurse into
  step 1"). \<open>Inl\<close> is a failure that would crash the caller if nothing caught it.
\<close>

definition resolve_unguarded :: "sql_internals \<Rightarrow> QueryableInterface \<Rightarrow> failure + string" where
  "resolve_unguarded env q =
     (case q of
        sql_DB p \<Rightarrow> Inr (dialect_of_driver (driver_name env p))
      | sql_Conn c \<Rightarrow>
          (case private_db env q of
             Inl f \<Rightarrow> Inl f
           | Inr p \<Rightarrow> Inr (dialect_of_driver (driver_name env p)))
      | sql_Tx t \<Rightarrow>
          (case private_db env q of
             Inl f \<Rightarrow> Inl f
           | Inr p \<Rightarrow> Inr (dialect_of_driver (driver_name env p)))
      | nil_queryable \<Rightarrow> Inl nil_reference
      | foreign_queryable x \<Rightarrow> Inl unsupported_handle)"

text \<open>
  Modelled from the spec: step 3 and the error semantics (missing: the body of
  \<^verbatim>\<open>DatabaseType\<close>). "It catches the failure and returns the unknown dialect tag"; "this
  operation never returns an error value", so the result is a tag and nothing else.
\<close>

definition DatabaseType :: "sql_internals \<Rightarrow> QueryableInterface \<Rightarrow> string" where
  "DatabaseType env q =
     (case resolve_unguarded env q of
        Inl f \<Rightarrow> unknown_dialect
      | Inr tag \<Rightarrow> tag)"

section \<open>Sample drivers\<close>

text \<open>
  Concrete handle behaviours on which the helpers are run: a cursor whose second row
  fails to scan, a cursor with no rows, a pool whose driver is the sqlite one and whose
  connections and transactions point back to it, and a database/sql whose private field
  cannot be read.
\<close>

definition failing_scan_driver :: handles where
  "failing_scan_driver =
     \<lparr> ExecContext = (\<lambda>tr q c s a. (None, Some (errors_New ''read only''))),
       QueryContext = (\<lambda>tr q c s a.
         (Some \<lparr> Columns = ([''id''], None),
                  Scans = [([int_any 1], None), ([], Some (errors_New ''scan failed''))],
                  Err = None \<rparr>, None)),
       MapStringAnyToMapStringString = (\<lambda>m. Map.empty) \<rparr>"

definition empty_result_driver :: handles where
  "empty_result_driver =
     \<lparr> ExecContext = (\<lambda>tr q c s a. (Some (0, 0), None)),
       QueryContext = (\<lambda>tr q c s a.
         (Some \<lparr> Columns = ([''id''], None), Scans = [], Err = None \<rparr>, None)),
       MapStringAnyToMapStringString = (\<lambda>m. Map.empty) \<rparr>"

definition db_ctx :: QueryableContext where
  "db_ctx = QueryableContext Background (sql_DB 1)"

definition nil_ctx :: QueryableContext where
  "nil_ctx = QueryableContext Background nil_queryable"

definition sqlite_internals :: sql_internals where
  "sqlite_internals =
     \<lparr> driver_name = (\<lambda>p. ''*sqlite.Driver''),
       private_db = (\<lambda>q. case q of
                            sql_Tx t \<Rightarrow> Inr 1
                          | sql_Conn c \<Rightarrow> Inr 1
                          | _ \<Rightarrow> Inl unexpected_layout) \<rparr>"

definition broken_internals :: sql_internals where
  "broken_internals =
     \<lparr> driver_name = (\<lambda>p. ''*sqlite.Driver''),
       private_db = (\<lambda>q. case q of
                            sql_Tx t \<Rightarrow> Inl access_fault
                          | _ \<Rightarrow> Inl unexpected_layout) \<rparr>"

section \<open>Properties of the context constructors\<close>

lemma NewQueryableContextOr_existing:
  "NewQueryableContextOr (queryable_context c) q = c"
  by (simp add: NewQueryableContextOr_def)

lemma NewQueryableContextOr_fresh:
  "\<not> IsQueryableContext ctx \<Longrightarrow> NewQueryableContextOr ctx q = QueryableContext ctx q"
  by (cases ctx) (simp_all add: NewQueryableContextOr_def IsQueryableContext_def)

lemma IsQueryableContext_result:
  "IsQueryableContext (queryable_context c)"
  by (simp add: IsQueryableContext_def)

lemma ContextOr_chain_existing:
  "ContextOr_chain (queryable_context c) qs = queryable_context c"
  by (induction qs) (simp_all add: NewQueryableContextOr_existing)

lemma size_parent_less:
  "size (Context c) < size c"
  by (cases c) simp

text \<open>
  C1. A context that already is a \<^verbatim>\<open>QueryableContext\<close>, bound to handle \<open>h1\<close>, comes back
  from \<^verbatim>\<open>NewQueryableContextOr\<close> (and from its shortcut \<^verbatim>\<open>ContextOr\<close>) as the very same
  value, whatever handle \<open>h2\<close> is offered; \<^verbatim>\<open>Queryable\<close> of the result is \<open>h1\<close>, and it
  is not \<open>h2\<close> when \<open>h2\<close> is another handle.
\<close>

theorem ContextOr_returns_existing:
  "queryable c = h1 \<Longrightarrow>
     NewQueryableContextOr (queryable_context c) h2 = c
   \<and> ContextOr (queryable_context c) h2 = c
   \<and> Queryable (NewQueryableContextOr (queryable_context c) h2) = h1
   \<and> Queryable (ContextOr (queryable_context c) h2) = h1
   \<and> (h2 \<noteq> h1 \<longrightarrow> Queryable (NewQueryableContextOr (queryable_context c) h2) \<noteq> h2)"
  by (simp add: ContextOr_def NewQueryableContextOr_existing Queryable_def)

theorem ContextOr_returns_existing_witness:
  "queryable (QueryableContext Background (sql_Tx 1)) = sql_Tx 1
   \<and> NewQueryableContextOr (queryable_context (QueryableContext Background (sql_Tx 1))) (sql_DB 2)
       = QueryableContext Background (sql_Tx 1)
   \<and> Queryable (NewQueryableContextOr (queryable_context (QueryableContext Background (sql_Tx 1)))
        (sql_DB 2)) = sql_Tx 1
   \<and> Queryable (NewQueryableContextOr (queryable_context (QueryableContext Background (sql_Tx 1)))
        (sql_DB 2)) \<noteq> sql_DB 2"
  using ContextOr_returns_existing
    [of "QueryableContext Background (sql_Tx 1)" "sql_Tx 1" "sql_DB 2"]
  by (simp add: Queryable_def)

text \<open>
  C2. For a context that is not a \<^verbatim>\<open>QueryableContext\<close> (it carries no bound handle) and
  any handle \<open>h\<close>, \<^verbatim>\<open>NewQueryableContextOr\<close> / \<^verbatim>\<open>ContextOr\<close> yields the context that
  wraps it with exactly \<open>h\<close>: the result is a \<^verbatim>\<open>QueryableContext\<close> and \<^verbatim>\<open>Queryable\<close> of
  it is \<open>h\<close>.
\<close>

theorem ContextOr_binds_unbound:
  "\<not> IsQueryableContext c \<Longrightarrow>
     NewQueryableContextOr c h = QueryableContext c h
   \<and> ContextOr c h = QueryableContext c h
   \<and> IsQueryableContext (queryable_context (NewQueryableContextOr c h))
   \<and> Queryable (NewQueryableContextOr c h) = h
   \<and> Queryable (ContextOr c h) = h"
  by (simp add: ContextOr_def NewQueryableContextOr_fresh Queryable_def
      IsQueryableContext_result)

theorem ContextOr_binds_unbound_witness:
  "\<not> IsQueryableContext Background
   \<and> NewQueryableContextOr Background (sql_DB 1) = QueryableContext Background (sql_DB 1)
   \<and> Queryable (ContextOr Background (sql_DB 1)) = sql_DB 1"
proof -
  have unbound: "\<not> IsQueryableContext Background"
    by (simp add: IsQueryableContext_def)
  from ContextOr_binds_unbound [OF unbound, of "sql_DB 1"] unbound
  show ?thesis by (simp add: Queryable_def)
qed

text \<open>
  C3. A \<^verbatim>\<open>QueryableContext\<close> whose handle is nil, such as the one \<^verbatim>\<open>NewQueryableContext\<close>
  makes from a nil handle, is returned as it is by \<^verbatim>\<open>NewQueryableContextOr\<close> for every
  non-nil handle \<open>h\<close>: \<^verbatim>\<open>Queryable()\<close> is still nil, \<open>h\<close> is dropped, and no sequence of
  further calls of the preserving constructor fills the handle in.
\<close>

theorem ContextOr_keeps_nil_handle:
  "queryable c = nil_queryable \<Longrightarrow> h \<noteq> nil_queryable \<Longrightarrow>
     NewQueryableContextOr (queryable_context c) h = c
   \<and> Queryable (NewQueryableContextOr (queryable_context c) h) = nil_queryable
   \<and> Queryable (NewQueryableContextOr (queryable_context c) h) \<noteq> h
   \<and> NewQueryableContextOr (queryable_context (NewQueryableContext p nil_queryable)) h
       = NewQueryableContext p nil_queryable
   \<and> ContextOr_chain (queryable_context c) hs = queryable_context c"
  by (simp add: NewQueryableContextOr_existing Queryable_def ContextOr_chain_existing)

theorem ContextOr_keeps_nil_handle_witness:
  "queryable (NewQueryableContext Background nil_queryable) = nil_queryable
   \<and> sql_DB 1 \<noteq> nil_queryable
   \<and> NewQueryableContextOr (queryable_context (NewQueryableContext Background nil_queryable))
        (sql_DB 1) = NewQueryableContext Background nil_queryable
   \<and> Queryable (NewQueryableContextOr
        (queryable_context (NewQueryableContext Background nil_queryable)) (sql_DB 1))
       = nil_queryable
   \<and> ContextOr_chain (queryable_context (NewQueryableContext Background nil_queryable))
        [sql_DB 1, sql_Tx 2] = queryable_context (NewQueryableContext Background nil_queryable)"
proof -
  have nil_bound: "queryable (NewQueryableContext Background nil_queryable) = nil_queryable"
    by (simp add: NewQueryableContext_def)
  have non_nil: "sql_DB 1 \<noteq> nil_queryable"
    by simp
  from ContextOr_keeps_nil_handle [OF nil_bound non_nil, of Background "[sql_DB 1, sql_Tx 2]"]
    nil_bound
  show ?thesis by (simp add: Queryable_def del: ContextOr_chain.simps)
qed

text \<open>
  C7. \<^verbatim>\<open>NewQueryableContextOr\<close> is idempotent: applied to its own result with the same
  handle it returns that result again, for every parent context and handle. Once a
  context is a \<^verbatim>\<open>QueryableContext\<close>, one more call, or any chain of calls with any
  handles, leaves the context and so its bound handle as they were.
\<close>

theorem ContextOr_idempotent:
  "NewQueryableContextOr (queryable_context (NewQueryableContextOr c h)) h
     = NewQueryableContextOr c h
   \<and> Queryable (NewQueryableContextOr (queryable_context q) h') = Queryable q
   \<and> ContextOr_chain (queryable_context q) hs = queryable_context q
   \<and> ContextOr_chain c (h # hs) = queryable_context (NewQueryableContextOr c h)"
  by (simp add: NewQueryableContextOr_existing ContextOr_chain_existing)

text \<open>
  C8. \<^verbatim>\<open>NewQueryableContext\<close> (and its shortcut \<^verbatim>\<open>Context\<close>) is total, with no error
  result: for every parent and every handle, nil included, it makes the context whose
  parent is the given one and whose handle is exactly the given one. When the parent is
  itself a \<^verbatim>\<open>QueryableContext\<close> the result is a new value, different from the parent,
  and its handle is the new one whatever the parent carried.
\<close>

theorem NewQueryableContext_binds:
  "NewQueryableContext c h = QueryableContext c h
   \<and> Context_shortcut c h = QueryableContext c h
   \<and> Queryable (NewQueryableContext c h) = h
   \<and> Context (NewQueryableContext c h) = c
   \<and> IsQueryableContext (queryable_context (NewQueryableContext c h))
   \<and> Queryable (NewQueryableContext (queryable_context q) h) = h
   \<and> NewQueryableContext (queryable_context q) h \<noteq> q
   \<and> Queryable (NewQueryableContext c nil_queryable) = nil_queryable"
proof -
  have "NewQueryableContext (queryable_context q) h \<noteq> q"
  proof
    assume same: "NewQueryableContext (queryable_context q) h = q"
    have "size (Context (NewQueryableContext (queryable_context q) h))
            < size (NewQueryableContext (queryable_context q) h)"
      by (rule size_parent_less)
    then have "size (queryable_context q) < size q"
      using same by (simp add: NewQueryableContext_def)
    then show False by simp
  qed
  then show ?thesis
    by (simp add: NewQueryableContext_def Context_shortcut_def Queryable_def
        IsQueryableContext_def)
qed

section \<open>Properties of the classification predicates\<close>

text \<open>
  C9. For every \<^verbatim>\<open>QueryableContext\<close>, \<^verbatim>\<open>IsDB\<close>, \<^verbatim>\<open>IsConn\<close> and \<^verbatim>\<open>IsTx\<close> exclude one
  another. All three are false when the handle is nil or of a foreign type; when it is a
  \<^verbatim>\<open>*sql.DB\<close>, a \<^verbatim>\<open>*sql.Conn\<close> or a \<^verbatim>\<open>*sql.Tx\<close>, the predicate of that type is true
  and the other two are false.
\<close>

theorem handle_classification_exclusive:
  "(queryable ctx = nil_queryable \<or> queryable ctx = foreign_queryable x
      \<longrightarrow> \<not> IsDB ctx \<and> \<not> IsConn ctx \<and> \<not> IsTx ctx)
   \<and> (queryable ctx = sql_DB a \<longrightarrow> IsDB ctx \<and> \<not> IsConn ctx \<and> \<not> IsTx ctx)
   \<and> (queryable ctx = sql_Conn a \<longrightarrow> \<not> IsDB ctx \<and> IsConn ctx \<and> \<not> IsTx ctx)
   \<and> (queryable ctx = sql_Tx a \<longrightarrow> \<not> IsDB ctx \<and> \<not> IsConn ctx \<and> IsTx ctx)
   \<and> \<not> (IsDB ctx \<and> IsConn ctx) \<and> \<not> (IsDB ctx \<and> IsTx ctx) \<and> \<not> (IsConn ctx \<and> IsTx ctx)"
  by (cases "queryable ctx") (simp_all add: IsDB_def IsConn_def IsTx_def)

theorem handle_classification_exclusive_witness:
  "(\<not> IsDB (QueryableContext Background nil_queryable)
      \<and> \<not> IsConn (QueryableContext Background nil_queryable)
      \<and> \<not> IsTx (QueryableContext Background nil_queryable))
   \<and> (\<not> IsDB (QueryableContext Background (foreign_queryable 9))
      \<and> \<not> IsConn (QueryableContext Background (foreign_queryable 9))
      \<and> \<not> IsTx (QueryableContext Background (foreign_queryable 9)))
   \<and> (IsDB (QueryableContext Background (sql_DB 1))
      \<and> \<not> IsConn (QueryableContext Background (sql_DB 1))
      \<and> \<not> IsTx (QueryableContext Background (sql_DB 1)))
   \<and> (\<not> IsDB (QueryableContext Background (sql_Conn 2))
      \<and> IsConn (QueryableContext Background (sql_Conn 2))
      \<and> \<not> IsTx (QueryableContext Background (sql_Conn 2)))
   \<and> (\<not> IsDB (QueryableContext Background (sql_Tx 3))
      \<and> \<not> IsConn (QueryableContext Background (sql_Tx 3))
      \<and> IsTx (QueryableContext Background (sql_Tx 3)))"
  using handle_classification_exclusive [of "QueryableContext Background nil_queryable" 9 1]
    handle_classification_exclusive [of "QueryableContext Background (foreign_queryable 9)" 9 1]
    handle_classification_exclusive [of "QueryableContext Background (sql_DB 1)" 9 1]
    handle_classification_exclusive [of "QueryableContext Background (sql_Conn 2)" 9 2]
    handle_classification_exclusive [of "QueryableContext Background (sql_Tx 3)" 9 3]
  by simp

section \<open>Properties of the execution helpers\<close>

text \<open>With a bound handle each of the two thin helpers makes exactly one call on it.\<close>

lemma bound_handle_called_once:
  "queryable ctx \<noteq> nil_queryable \<Longrightarrow>
     snd (Execute h ctx sqlStr args tr)
       = tr @ [ExecContext_call (queryable ctx) ctx sqlStr args]
   \<and> snd (Query h ctx sqlStr args tr)
       = tr @ [QueryContext_call (queryable ctx) ctx sqlStr args]"
  by (simp add: Execute_def Query_def NewQueryableContextOr_existing)

text \<open>
  C6. Called with a \<^verbatim>\<open>QueryableContext\<close> whose handle is nil, each of \<^verbatim>\<open>Execute\<close>,
  \<^verbatim>\<open>Query\<close>, \<^verbatim>\<open>SelectToMapAny\<close> and \<^verbatim>\<open>SelectToMapString\<close> returns the error
  "querier (db/tx/conn) is nil", for every SQL string and argument list, and the trace of
  calls is the one it started with: no \<^verbatim>\<open>ExecContext\<close> or \<^verbatim>\<open>QueryContext\<close> call was
  made, neither a first one nor a retry.
\<close>

theorem nil_handle_rejected:
  "queryable ctx = nil_queryable \<Longrightarrow>
     Execute h ctx sqlStr args tr
       = ((None, Some (errors_New ''querier (db/tx/conn) is nil'')), tr)
   \<and> Query h ctx sqlStr args tr
       = ((None, Some (errors_New ''querier (db/tx/conn) is nil'')), tr)
   \<and> SelectToMapAny h ctx sqlStr args tr
       = (Returns (slice [], Some (errors_New ''querier (db/tx/conn) is nil'')), tr)
   \<and> SelectToMapString h ctx sqlStr args tr
       = (Returns (slice [], Some (errors_New ''querier (db/tx/conn) is nil'')), tr)"
  by (simp add: Execute_def Query_def SelectToMapAny_def SelectToMapString_def nil_querier_def)

theorem nil_handle_rejected_witness:
  "queryable nil_ctx = nil_queryable
   \<and> Execute empty_result_driver nil_ctx ''DELETE FROM users WHERE id = ?'' [int_any 1] []
       = ((None, Some (errors_New ''querier (db/tx/conn) is nil'')), [])
   \<and> Query empty_result_driver nil_ctx ''SELECT * FROM users'' [] []
       = ((None, Some (errors_New ''querier (db/tx/conn) is nil'')), [])
   \<and> SelectToMapAny empty_result_driver nil_ctx ''SELECT * FROM users'' [] []
       = (Returns (slice [], Some (errors_New ''querier (db/tx/conn) is nil'')), [])
   \<and> SelectToMapString empty_result_driver nil_ctx ''SELECT * FROM users'' [] []
       = (Returns (slice [], Some (errors_New ''querier (db/tx/conn) is nil'')), [])"
proof -
  have nil_bound: "queryable nil_ctx = nil_queryable"
    by (simp add: nil_ctx_def)
  from nil_handle_rejected
      [OF nil_bound, of empty_result_driver "''DELETE FROM users WHERE id = ?''" "[int_any 1]" "[]"]
    nil_handle_rejected [OF nil_bound, of empty_result_driver "''SELECT * FROM users''" "[]" "[]"]
    nil_bound
  show ?thesis by simp
qed

subsection \<open>The row loop and the conversion loop\<close>

lemma scan_loop_early:
  "scan_loop columns evs listMap = Inl r \<Longrightarrow> \<exists>e. r = (slice [], Some e)"
  by (induction evs arbitrary: listMap) (auto split: option.splits)

lemma scan_loop_fails:
  "(vs, Some e) \<in> set evs \<Longrightarrow> \<exists>e'. scan_loop columns evs listMap = Inl (slice [], Some e')"
  by (induction evs arbitrary: listMap) (auto split: option.splits)

lemma scan_loop_done:
  "scan_loop columns evs (slice xs) = Inr listMap' \<Longrightarrow>
     listMap' = slice (xs @ map (make_row columns) (map fst evs))"
proof (induction evs arbitrary: xs)
  case Nil
  then show ?case by simp
next
  case (Cons ev evs)
  obtain vs scan_err where ev: "ev = (vs, scan_err)" by (cases ev)
  with Cons.prems have rest:
    "scan_loop columns evs (slice (xs @ [make_row columns vs])) = Inr listMap'"
    by (auto split: option.splits)
  from Cons.IH [OF rest] show ?case
    by (simp add: ev)
qed

lemma scan_loop_from_empty:
  "scan_loop columns evs (slice []) = Inr listMap' \<Longrightarrow>
     listMap' = slice (map (make_row columns) (map fst evs))"
  using scan_loop_done [of columns evs "[]" listMap'] by simp

lemma convert_loop_eq:
  "convert_loop h ms (slice xs) = slice (xs @ map (MapStringAnyToMapStringString h) ms)"
  by (induction ms arbitrary: xs) simp_all

lemma convert_loop_from_empty:
  "convert_loop h ms (slice []) = slice (map (MapStringAnyToMapStringString h) ms)"
  by (simp add: convert_loop_eq)

subsection \<open>What the select helpers return\<close>

lemma SelectToMapAny_error:
  "SelectToMapAny h ctx sqlStr args tr = (Returns (s, Some e), tr') \<Longrightarrow> s = slice []"
  by (auto simp: SelectToMapAny_def Let_def
      split: if_splits prod.splits option.splits sum.splits dest: scan_loop_early)

lemma SelectToMapAny_success:
  "SelectToMapAny h ctx sqlStr args tr = (Returns (s, None), tr') \<Longrightarrow>
     \<exists>rs. QueryContext h tr (queryable ctx) ctx sqlStr args = (Some rs, None)
        \<and> s = slice (map (make_row (fst (Columns rs))) (map fst (Scans rs)))"
  by (auto simp: SelectToMapAny_def Let_def
      split: if_splits prod.splits option.splits sum.splits
      dest: scan_loop_early scan_loop_from_empty)

text \<open>Each of the four places an error can come from after the nil check returns it.\<close>

lemma SelectToMapAny_error_sources:
  assumes bound: "queryable ctx \<noteq> nil_queryable"
  shows "QueryContext h tr (queryable ctx) ctx sqlStr args = (r, Some e) \<Longrightarrow>
           fst (SelectToMapAny h ctx sqlStr args tr) = Returns (slice [], Some e)"
    and "QueryContext h tr (queryable ctx) ctx sqlStr args = (Some rs, None) \<Longrightarrow>
         Columns rs = (cols, Some e) \<Longrightarrow>
           fst (SelectToMapAny h ctx sqlStr args tr) = Returns (slice [], Some e)"
    and "QueryContext h tr (queryable ctx) ctx sqlStr args = (Some rs, None) \<Longrightarrow>
         Columns rs = (cols, None) \<Longrightarrow> scan_loop cols (Scans rs) (slice []) = Inl early \<Longrightarrow>
           fst (SelectToMapAny h ctx sqlStr args tr) = Returns early"
    and "QueryContext h tr (queryable ctx) ctx sqlStr args = (Some rs, None) \<Longrightarrow>
         Columns rs = (cols, None) \<Longrightarrow> scan_loop cols (Scans rs) (slice []) = Inr lm \<Longrightarrow>
         Err rs = Some e \<Longrightarrow>
           fst (SelectToMapAny h ctx sqlStr args tr) = Returns (slice [], Some e)"
  using bound by (simp_all add: SelectToMapAny_def)

lemma SelectToMapString_error:
  "SelectToMapString h ctx sqlStr args tr = (Returns (t, Some e), tr') \<Longrightarrow> t = slice []"
  by (auto simp: SelectToMapString_def split: if_splits prod.splits option.splits outcome.splits)

lemma SelectToMapString_success:
  assumes run: "SelectToMapString h ctx sqlStr args tr = (Returns (t, None), tr')"
  shows "\<exists>rs. QueryContext h tr (queryable ctx) ctx sqlStr args = (Some rs, None)
        \<and> t = slice (map (MapStringAnyToMapStringString h)
                 (map (make_row (fst (Columns rs))) (map fst (Scans rs))))"
proof -
  from run obtain s where any: "SelectToMapAny h ctx sqlStr args tr = (Returns (s, None), tr')"
    and t: "t = convert_loop h (elements s) (slice [])"
    by (auto simp: SelectToMapString_def split: if_splits prod.splits option.splits outcome.splits)
  from SelectToMapAny_success [OF any] t show ?thesis
    by (auto simp: convert_loop_from_empty)
qed

lemma failing_scan_run:
  "SelectToMapAny failing_scan_driver db_ctx ''SELECT id FROM users'' [] []
     = (Returns (slice [], Some (errors_New ''scan failed'')),
        [QueryContext_call (sql_DB 1) db_ctx ''SELECT id FROM users'' []])"
  by (simp add: SelectToMapAny_def failing_scan_driver_def db_ctx_def)

lemma empty_result_run:
  "SelectToMapString empty_result_driver db_ctx ''SELECT id FROM users'' [] []
     = (Returns (slice [], None),
        [QueryContext_call (sql_DB 1) db_ctx ''SELECT id FROM users'' []])"
  by (simp add: SelectToMapString_def SelectToMapAny_def empty_result_driver_def db_ctx_def)

text \<open>
  C10. Whenever \<^verbatim>\<open>SelectToMapAny\<close> returns a non-nil error, from whichever step, the
  slice it returns beside it is the empty non-nil slice: not nil and without the rows
  read before the failure. When it returns no error the slice is not nil either, and it
  is the empty slice when the cursor had no rows. \<^verbatim>\<open>SelectToMapString\<close> behaves the same.
\<close>

theorem SelectToMap_empty_slice:
  "(SelectToMapAny h ctx sqlStr args tr = (Returns (s, Some e), tr') \<longrightarrow> s = slice [])
   \<and> (SelectToMapAny h ctx sqlStr args tr = (Returns (s, None), tr') \<longrightarrow> s \<noteq> nil_slice)
   \<and> (SelectToMapAny h ctx sqlStr args tr = (Returns (s, None), tr')
        \<and> QueryContext h tr (queryable ctx) ctx sqlStr args = (Some rs, None)
        \<and> Scans rs = [] \<longrightarrow> s = slice [])
   \<and> (SelectToMapString h ctx sqlStr args tr = (Returns (t, Some e), tr') \<longrightarrow> t = slice [])
   \<and> (SelectToMapString h ctx sqlStr args tr = (Returns (t, None), tr') \<longrightarrow> t \<noteq> nil_slice)
   \<and> (SelectToMapString h ctx sqlStr args tr = (Returns (t, None), tr')
        \<and> QueryContext h tr (queryable ctx) ctx sqlStr args = (Some rs, None)
        \<and> Scans rs = [] \<longrightarrow> t = slice [])"
proof -
  have any_err: "s = slice []"
    if "SelectToMapAny h ctx sqlStr args tr = (Returns (s, Some e), tr')"
    using that by (rule SelectToMapAny_error)
  have any_ok: "s \<noteq> nil_slice
      \<and> (QueryContext h tr (queryable ctx) ctx sqlStr args = (Some rs, None) \<and> Scans rs = []
           \<longrightarrow> s = slice [])"
    if "SelectToMapAny h ctx sqlStr args tr = (Returns (s, None), tr')"
    using SelectToMapAny_success [OF that] by auto
  have str_err: "t = slice []"
    if "SelectToMapString h ctx sqlStr args tr = (Returns (t, Some e), tr')"
    using that by (rule SelectToMapString_error)
  have str_ok: "t \<noteq> nil_slice
      \<and> (QueryContext h tr (queryable ctx) ctx sqlStr args = (Some rs, None) \<and> Scans rs = []
           \<longrightarrow> t = slice [])"
    if "SelectToMapString h ctx sqlStr args tr = (Returns (t, None), tr')"
    using SelectToMapString_success [OF that] by auto
  from any_err any_ok str_err str_ok show ?thesis by blast
qed

theorem SelectToMap_empty_slice_witness:
  "SelectToMapAny failing_scan_driver db_ctx ''SELECT id FROM users'' [] []
     = (Returns (slice [], Some (errors_New ''scan failed'')),
        [QueryContext_call (sql_DB 1) db_ctx ''SELECT id FROM users'' []])
   \<and> SelectToMapString empty_result_driver db_ctx ''SELECT id FROM users'' [] []
     = (Returns (slice [], None),
        [QueryContext_call (sql_DB 1) db_ctx ''SELECT id FROM users'' []])
   \<and> (slice [] :: (string \<rightharpoonup> string) slice) \<noteq> nil_slice"
  using SelectToMap_empty_slice
      [where h = failing_scan_driver and ctx = db_ctx and sqlStr = "''SELECT id FROM users''"
         and args = "[]" and tr = "[]" and s = "slice []" and e = "errors_New ''scan failed''"
         and tr' = "[QueryContext_call (sql_DB 1) db_ctx ''SELECT id FROM users'' []]"]
    SelectToMap_empty_slice
      [where h = empty_result_driver and ctx = db_ctx and sqlStr = "''SELECT id FROM users''"
         and args = "[]" and tr = "[]" and t = "slice []"
         and tr' = "[QueryContext_call (sql_DB 1) db_ctx ''SELECT id FROM users'' []]"]
    failing_scan_run empty_result_run
  by simp

section \<open>Properties of dialect resolution\<close>

lemma dialect_of_driver_unique:
  "tag \<in> set dialect_keywords \<Longrightarrow>
   \<forall>k \<in> set dialect_keywords. contains (map to_lower name) k \<longleftrightarrow> k = tag \<Longrightarrow>
   dialect_of_driver name = tag"
  by (auto simp: dialect_of_driver_def dialect_keywords_def)

text \<open>
  C4. Dialect resolution has no error result, and whenever classifying the handle fails
  it returns the tag "unknown": for the nil handle, for a handle of a foreign type, and
  for a transaction or connection whose private field cannot be read (unexpected layout,
  nil reference, or a fault of the unsafe access).
\<close>

theorem DatabaseType_unknown_on_failure:
  "(resolve_unguarded env q = Inl f \<longrightarrow> DatabaseType env q = ''unknown'')
   \<and> DatabaseType env nil_queryable = ''unknown''
   \<and> DatabaseType env (foreign_queryable x) = ''unknown''
   \<and> (private_db env (sql_Tx t) = Inl f \<longrightarrow> DatabaseType env (sql_Tx t) = ''unknown'')
   \<and> (private_db env (sql_Conn c) = Inl f \<longrightarrow> DatabaseType env (sql_Conn c) = ''unknown'')"
  by (simp add: DatabaseType_def resolve_unguarded_def unknown_dialect_def)

theorem DatabaseType_unknown_on_failure_witness:
  "private_db broken_internals (sql_Tx 7) = Inl access_fault
   \<and> resolve_unguarded broken_internals (sql_Tx 7) = Inl access_fault
   \<and> DatabaseType broken_internals (sql_Tx 7) = ''unknown''
   \<and> private_db broken_internals (sql_Conn 8) = Inl unexpected_layout
   \<and> DatabaseType broken_internals (sql_Conn 8) = ''unknown''"
proof -
  have tx: "private_db broken_internals (sql_Tx 7) = Inl access_fault"
    by (simp add: broken_internals_def)
  have conn: "private_db broken_internals (sql_Conn 8) = Inl unexpected_layout"
    by (simp add: broken_internals_def)
  have unguarded: "resolve_unguarded broken_internals (sql_Tx 7) = Inl access_fault"
    by (simp add: resolve_unguarded_def tx)
  from DatabaseType_unknown_on_failure [of broken_internals "sql_Tx 7" access_fault 0 7 8]
    DatabaseType_unknown_on_failure [of broken_internals "sql_Tx 7" unexpected_layout 0 7 8]
    tx conn unguarded
  show ?thesis by simp
qed

text \<open>
  C5. A pool whose driver identifier names one dialect (it contains that dialect's
  keyword, in any letter case, and no other dialect's) resolves to that dialect's tag,
  and a transaction or a connection whose parent pool is recovered resolves to the same
  tag as that pool.
\<close>

theorem DatabaseType_pool_and_derived:
  "(tag \<in> set dialect_keywords
      \<and> (\<forall>k \<in> set dialect_keywords. contains (map to_lower (driver_name env p)) k \<longleftrightarrow> k = tag)
      \<longrightarrow> DatabaseType env (sql_DB p) = tag)
   \<and> (private_db env (sql_Tx t) = Inr p \<longrightarrow>
        DatabaseType env (sql_Tx t) = DatabaseType env (sql_DB p))
   \<and> (private_db env (sql_Conn c) = Inr p \<longrightarrow>
        DatabaseType env (sql_Conn c) = DatabaseType env (sql_DB p))"
  by (simp add: DatabaseType_def resolve_unguarded_def dialect_of_driver_unique)

theorem DatabaseType_pool_and_derived_witness:
  "DATABASE_TYPE_SQLITE \<in> set dialect_keywords
   \<and> private_db sqlite_internals (sql_Tx 2) = Inr 1
   \<and> private_db sqlite_internals (sql_Conn 3) = Inr 1
   \<and> DatabaseType sqlite_internals (sql_DB 1) = DATABASE_TYPE_SQLITE
   \<and> DatabaseType sqlite_internals (sql_Tx 2) = DATABASE_TYPE_SQLITE
   \<and> DatabaseType sqlite_internals (sql_Conn 3) = DATABASE_TYPE_SQLITE"
proof -
  have tag: "DATABASE_TYPE_SQLITE \<in> set dialect_keywords"
    by (simp add: dialect_keywords_def)
  have only: "\<forall>k \<in> set dialect_keywords.
      contains (map to_lower (driver_name sqlite_internals 1)) k \<longleftrightarrow> k = DATABASE_TYPE_SQLITE"
    by (simp add: dialect_keywords_def sqlite_internals_def to_lower_def
        DATABASE_TYPE_SQLITE_def DATABASE_TYPE_MYSQL_def DATABASE_TYPE_POSTGRES_def
        DATABASE_TYPE_MSSQL_def)
  have tx: "private_db sqlite_internals (sql_Tx 2) = Inr 1"
    by (simp add: sqlite_internals_def)
  have conn: "private_db sqlite_internals (sql_Conn 3) = Inr 1"
    by (simp add: sqlite_internals_def)
  from DatabaseType_pool_and_derived [of DATABASE_TYPE_SQLITE sqlite_internals 1 2 3]
    tag only tx conn
  show ?thesis by simp
qed

end
